theory Spec2Isabelle
  imports Complex_Main "HOL-Library.Sublist"
begin

section \<open>Python values and helpers\<close>

text \<open>
  The exceptions the handlers of \<^verbatim>\<open>flask_backend/app.py\<close> can meet. Every
  \<^verbatim>\<open>raise\<close> of the Python becomes a value \<open>Inl e\<close>; \<open>ExternalError\<close> stands for
  whatever an external library (the classifier, the image decoder, the text generator,
  the request parser) raises.
\<close>

datatype py_error =
  TypeError | ValueError | KeyError | AttributeError | OverflowError
  | IntegrityError | InterfaceError | ExternalError

text \<open>
  A parsed JSON value, as \<^verbatim>\<open>request.get_json()\<close> and \<^verbatim>\<open>json.loads\<close> return it.
  An object is an association list; a parsed object has distinct keys, and a lookup
  takes the first binding. Numbers are the integers: the textual form SQLite gives a
  double stored in a TEXT column is outside this development. A string is a list of
  characters, each a code point below 256: text with other code points is outside it
  as well.
\<close>

datatype jv =
  JNull | JBool bool | JInt int | JStr string | JList "jv list" | JDict "(string \<times> jv) list"

text \<open>Python truthiness (\<^verbatim>\<open>not data\<close>, \<^verbatim>\<open>if chat_history:\<close>, \<^verbatim>\<open>if mood\<close>).\<close>

fun truthy :: "jv \<Rightarrow> bool" where
  "truthy JNull = False"
| "truthy (JBool b) = b"
| "truthy (JInt i) = (i \<noteq> 0)"
| "truthy (JStr s) = (s \<noteq> [])"
| "truthy (JList xs) = (xs \<noteq> [])"
| "truthy (JDict kvs) = (kvs \<noteq> [])"

text \<open>
  \<^verbatim>\<open>max(iterable, key=f)\<close>: ValueError on an empty iterable; otherwise the first item is
  the candidate and a later item replaces it only when its key is strictly greater, so
  among equal keys the first wins. A key that is \<^verbatim>\<open>None\<close> cannot be compared
  (TypeError), but a single item is returned without any comparison.
\<close>

fun max_loop :: "('a \<Rightarrow> real option) \<Rightarrow> 'a \<Rightarrow> real option \<Rightarrow> 'a list \<Rightarrow> py_error + 'a" where
  "max_loop key maxitem maxval [] = Inr maxitem"
| "max_loop key maxitem maxval (item # rest) =
     (case (key item, maxval) of
        (Some v, Some m) \<Rightarrow>
          if m < v then max_loop key item (Some v) rest else max_loop key maxitem maxval rest
      | _ \<Rightarrow> Inl TypeError)"

definition py_max :: "('a \<Rightarrow> real option) \<Rightarrow> 'a list \<Rightarrow> py_error + 'a" where
  "py_max key xs = (case xs of [] \<Rightarrow> Inl ValueError | x # rest \<Rightarrow> max_loop key x (key x) rest)"

section \<open>Emotion detection\<close>

text \<open>
  One entry of the list \<^verbatim>\<open>emotion_detector.detect_emotions(image)\<close> returns: the
  bounding box and the per-emotion scores of one face, a dict in iteration order.
  Scores are Python floats, read here as the real numbers they denote.
\<close>

record face =
  box :: "int list"
  emotions :: "(string \<times> real) list"

text \<open>
  \<^verbatim>\<open>detect_emotion(image)\<close>. The classifier is external and is a parameter; the whole
  body stands in a \<^verbatim>\<open>try\<close> whose handler returns \<^verbatim>\<open>(None, 0.0)\<close>.
\<close>

definition detect_emotion :: "('img \<Rightarrow> py_error + face list) \<Rightarrow> 'img \<Rightarrow> string option \<times> real" where
  "detect_emotion emotion_detector img =
     (case emotion_detector img of
        Inl e \<Rightarrow> (None, 0)
      | Inr faces \<Rightarrow>
          (case faces of
             [] \<Rightarrow> (None, 0)
           | first_face # _ \<Rightarrow>
               (let emotion_data = emotions first_face in
                case py_max (map_of emotion_data) (map fst emotion_data) of
                  Inl e \<Rightarrow> (None, 0)
                | Inr dominant_emotion \<Rightarrow>
                    (case map_of emotion_data dominant_emotion of
                       None \<Rightarrow> (None, 0)
                     | Some confidence \<Rightarrow> (Some dominant_emotion, confidence)))))"

section \<open>JSON access\<close>

text \<open>\<^verbatim>\<open>d.get(k, default)\<close> on a dict.\<close>

definition dict_get :: "(string \<times> jv) list \<Rightarrow> string \<Rightarrow> jv \<Rightarrow> jv" where
  "dict_get d k dflt = (case map_of d k of None \<Rightarrow> dflt | Some v \<Rightarrow> v)"

text \<open>
  \<^verbatim>\<open>k in data\<close> for a string \<open>k\<close>: key membership on a dict, element membership on a
  list, substring on a string; TypeError on \<^verbatim>\<open>None\<close>, a bool or a number.
\<close>

definition py_in :: "string \<Rightarrow> jv \<Rightarrow> py_error + bool" where
  "py_in k data =
     (case data of
        JDict d \<Rightarrow> Inr (k \<in> set (map fst d))
      | JList xs \<Rightarrow> Inr (JStr k \<in> set xs)
      | JStr s \<Rightarrow> Inr (sublist k s)
      | _ \<Rightarrow> Inl TypeError)"

text \<open>\<^verbatim>\<open>data[k]\<close> for a string \<open>k\<close>: only a dict can be subscripted by a string.\<close>

definition py_getitem :: "jv \<Rightarrow> string \<Rightarrow> py_error + jv" where
  "py_getitem data k =
     (case data of
        JDict d \<Rightarrow> (case map_of d k of None \<Rightarrow> Inl KeyError | Some v \<Rightarrow> Inr v)
      | _ \<Rightarrow> Inl TypeError)"

text \<open>\<^verbatim>\<open>data.get(k, default)\<close>: only a dict has the method.\<close>

definition py_get :: "jv \<Rightarrow> string \<Rightarrow> jv \<Rightarrow> py_error + jv" where
  "py_get data k dflt =
     (case data of JDict d \<Rightarrow> Inr (dict_get d k dflt) | _ \<Rightarrow> Inl AttributeError)"

text \<open>Sequencing of fallible steps: the first exception ends the computation.\<close>

definition and_then :: "py_error + 'a \<Rightarrow> ('a \<Rightarrow> py_error + 'b) \<Rightarrow> py_error + 'b" where
  "and_then r f = (case r of Inl e \<Rightarrow> Inl e | Inr v \<Rightarrow> f v)"

fun collect :: "('a \<Rightarrow> py_error + 'b) \<Rightarrow> 'a list \<Rightarrow> py_error + 'b list" where
  "collect f [] = Inr []"
| "collect f (x # xs) = and_then (f x) (\<lambda>y. and_then (collect f xs) (\<lambda>ys. Inr (y # ys)))"

section \<open>Image decoding\<close>

text \<open>\<^verbatim>\<open>base64_string.split(',')[1]\<close>, used only when the string has a comma.\<close>

definition split_comma_1 :: "string \<Rightarrow> string" where
  "split_comma_1 s = takeWhile (\<lambda>c. c \<noteq> CHR '','') (tl (dropWhile (\<lambda>c. c \<noteq> CHR '','') s))"

text \<open>
  \<^verbatim>\<open>decode_base64_image\<close>. The pipeline \<^verbatim>\<open>base64.b64decode\<close>, \<^verbatim>\<open>Image.open\<close>,
  \<^verbatim>\<open>cv2.cvtColor\<close> is external and is the parameter \<open>decode_bytes\<close>. The body stands in
  a \<^verbatim>\<open>try\<close> whose handler returns \<^verbatim>\<open>None\<close>. A value that is not a string raises on
  the way (the comma test, \<^verbatim>\<open>split\<close> or \<^verbatim>\<open>b64decode\<close>), so it gives \<^verbatim>\<open>None\<close> as well.
\<close>

definition decode_base64_image :: "(string \<Rightarrow> py_error + 'img) \<Rightarrow> jv \<Rightarrow> 'img option" where
  "decode_base64_image decode_bytes base64_string =
     (case base64_string of
        JStr s \<Rightarrow>
          (case decode_bytes (if CHR '','' \<in> set s then split_comma_1 s else s) of
             Inl e \<Rightarrow> None
           | Inr opencv_image \<Rightarrow> Some opencv_image)
      | _ \<Rightarrow> None)"

section \<open>The text generator and the suggestions\<close>

text \<open>
  The prompt handed to \<^verbatim>\<open>model.generate_content\<close>, by the values its f-string embeds:
  the emotion for a suggestion; the mood (when truthy), the dialogue lines of the context
  and the message for a chat reply.
\<close>

datatype prompt =
  SuggestionPrompt string
  | ChatPrompt "jv option" "(string \<times> jv) list" jv

text \<open>
  What a call of the generator yields: \<open>GenerateFails\<close> when \<^verbatim>\<open>generate_content\<close>
  raises, \<open>TextFails\<close> when reading \<^verbatim>\<open>response.text\<close> raises, \<open>Text t\<close> otherwise.
\<close>

datatype llm_reply = GenerateFails | TextFails | Text string

text \<open>
  The external collaborators and the module-level configuration: whether \<^verbatim>\<open>model\<close> is
  set (GEMINI_API_KEY present), the image pipeline, the classifier, the generator,
  \<^verbatim>\<open>json.loads\<close> (\<open>None\<close> when it raises) and Python's \<^verbatim>\<open>int\<close> on a string (\<open>None\<close>
  when it raises ValueError).
\<close>

record 'img services =
  model_configured :: bool
  decode_bytes :: "string \<Rightarrow> py_error + 'img"
  emotion_detector :: "'img \<Rightarrow> py_error + face list"
  generate_content :: "prompt \<Rightarrow> llm_reply"
  json_loads :: "string \<Rightarrow> jv option"
  int_of_str :: "string \<Rightarrow> int option"

definition suggestion_dict :: "string \<Rightarrow> string \<Rightarrow> string \<Rightarrow> string \<Rightarrow> jv" where
  "suggestion_dict m t a s =
     JDict [(''message'', JStr m), (''tip'', JStr t), (''activity'', JStr a), (''sound'', JStr s)]"

text \<open>The dict returned when the generator's text is not JSON.\<close>

definition generic_suggestion :: jv where
  "generic_suggestion = suggestion_dict
     ''You're doing great by acknowledging your feelings. Every emotion is valid and temporary.''
     ''Take slow, deep breaths and remind yourself that this feeling will pass.''
     ''Try a short mindfulness exercise or gentle movement.''
     ''calming nature sounds''"

definition neutral_suggestion :: jv where
  "neutral_suggestion = suggestion_dict
     ''A balanced state is a gift. You're centered and ready for whatever comes your way.''
     ''This is a perfect time for planning, reflection, or trying something new.''
     ''Consider setting a small, achievable goal for today or practicing gratitude.''
     ''ambient peace''"

definition fallback_suggestions :: "(string \<times> jv) list" where
  "fallback_suggestions =
     [(''happy'', suggestion_dict
         ''Your positive energy is wonderful! Embrace this joyful moment and let it fill you with warmth.''
         ''Share your happiness with others - positive emotions are contagious in the best way.''
         ''Try dancing to your favorite song or call someone you care about.''
         ''uplifting nature sounds''),
      (''sad'', suggestion_dict
         ''It's completely okay to feel this way. Your emotions are valid, and you're not alone in this.''
         ''Allow yourself to feel without judgment. Sadness is a natural part of the human experience.''
         ''Try gentle stretching, journaling, or listening to comforting music.''
         ''gentle rain''),
      (''angry'', suggestion_dict
         ''Your feelings are valid. Let's channel this energy in a healthy, constructive way.''
         ''Physical movement can help release tension. Take deep breaths and count to ten.''
         ''Try a brief walk outside, some deep breathing, or write down your thoughts.''
         ''flowing stream''),
      (''fear'', suggestion_dict
         ''You're braver than you feel right now. Fear is temporary, but your strength is lasting.''
         ''Ground yourself by focusing on what you can control in this moment.''
         ''Practice the 5-4-3-2-1 grounding technique: 5 things you see, 4 you hear, 3 you feel, 2 you smell, 1 you taste.''
         ''peaceful forest''),
      (''surprise'', suggestion_dict
         ''Life is full of unexpected moments. You're handling this surprise with grace.''
         ''Take a moment to process this new information. Surprises can lead to growth.''
         ''Take a few mindful breaths and reflect on how you're feeling right now.''
         ''gentle wind chimes''),
      (''disgust'', suggestion_dict
         ''Your boundaries and values are important. It's okay to feel this way about things that don't align with you.''
         ''Distance yourself from what's bothering you if possible, and focus on what brings you peace.''
         ''Engage in something that brings you joy or comfort - perhaps a hobby or time in nature.''
         ''mountain breeze''),
      (''neutral'', neutral_suggestion)]"

text \<open>
  \<^verbatim>\<open>get_therapeutic_suggestion(emotion, use_gemini=True)\<close>. With the generator in use:
  a raising call, or a \<^verbatim>\<open>response.text\<close> that raises (in the inner \<^verbatim>\<open>try\<close>, and again
  in its handler), ends in the outer handler, which logs and falls through to the table;
  a text that \<^verbatim>\<open>json.loads\<close> accepts is returned as parsed, whatever JSON value it is;
  a text it rejects gives the fixed \<open>generic_suggestion\<close>. The last line is
  \<^verbatim>\<open>fallback_suggestions.get(emotion, fallback_suggestions['neutral'])\<close>.
\<close>

definition get_therapeutic_suggestion :: "'img services \<Rightarrow> string \<Rightarrow> bool \<Rightarrow> jv" where
  "get_therapeutic_suggestion sv emotion use_gemini =
     (let fallback = dict_get fallback_suggestions emotion neutral_suggestion in
      if use_gemini \<and> model_configured sv then
        (case generate_content sv (SuggestionPrompt emotion) of
           GenerateFails \<Rightarrow> fallback
         | TextFails \<Rightarrow> fallback
         | Text t \<Rightarrow>
             (case json_loads sv t of
                Some suggestion_data \<Rightarrow> suggestion_data
              | None \<Rightarrow> generic_suggestion))
      else fallback)"

section \<open>The chat reply\<close>

text \<open>
  \<^verbatim>\<open>str.strip()\<close> removes the white space at both ends. A character is a code point
  below 256, and of these Python counts as white space the tab, line feed, vertical
  tab, form feed and carriage return (9 to 13), the separators 28 to 31, the space (32),
  the next-line character (133) and the no-break space (160).
\<close>

definition py_isspace :: "char \<Rightarrow> bool" where
  "py_isspace c = (of_char c \<in> {9, 10, 11, 12, 13, 28, 29, 30, 31, 32, 133, 160 :: nat})"

definition py_strip :: "string \<Rightarrow> string" where
  "py_strip s = rev (dropWhile py_isspace (rev (dropWhile py_isspace s)))"

definition unconfigured_reply :: string where
  "unconfigured_reply =
     ''I'm here to listen and support you. Sometimes it helps just to know someone cares about you.''"

definition failure_reply :: string where
  "failure_reply =
     ''I'm here for you. Your feelings are valid, and it's okay to take things one step at a time.''"

text \<open>
  One line of the context: \<^verbatim>\<open>msg.get('sender')\<close> and \<^verbatim>\<open>msg.get('text', '')\<close>, which
  only a dict has.
\<close>

definition context_line :: "jv \<Rightarrow> py_error + (string \<times> jv)" where
  "context_line msg =
     (case msg of
        JDict m \<Rightarrow>
          Inr (if map_of m ''sender'' = Some (JStr ''user'') then ''Human'' else ''Therapist'',
               dict_get m ''text'' (JStr []))
      | _ \<Rightarrow> Inl AttributeError)"

text \<open>
  The loop over \<^verbatim>\<open>chat_history[-5:]\<close>, entered when the history is truthy. A list gives
  its last five items; a non-empty string gives characters, which have no \<^verbatim>\<open>get\<close>;
  anything else truthy cannot be sliced.
\<close>

definition build_context :: "jv \<Rightarrow> py_error + (string \<times> jv) list" where
  "build_context chat_history =
     (if \<not> truthy chat_history then Inr []
      else case chat_history of
             JList xs \<Rightarrow> collect context_line (drop (length xs - 5) xs)
           | JStr s \<Rightarrow> Inl AttributeError
           | _ \<Rightarrow> Inl TypeError)"

text \<open>
  \<^verbatim>\<open>get_chat_response(message, mood, chat_history)\<close>: the first fixed sentence when
  \<^verbatim>\<open>model\<close> is unset; otherwise everything stands in a \<^verbatim>\<open>try\<close> whose handler returns
  the second fixed sentence.
\<close>

definition get_chat_response :: "'img services \<Rightarrow> jv \<Rightarrow> jv \<Rightarrow> jv \<Rightarrow> string" where
  "get_chat_response sv message mood chat_history =
     (if \<not> model_configured sv then unconfigured_reply
      else case build_context chat_history of
             Inl e \<Rightarrow> failure_reply
           | Inr context \<Rightarrow>
               (case generate_content sv
                       (ChatPrompt (if truthy mood then Some mood else None) context message) of
                  Text t \<Rightarrow> py_strip t
                | _ \<Rightarrow> failure_reply))"

section \<open>The store\<close>

text \<open>
  The three tables of \<^verbatim>\<open>init_db\<close>, each a list of rows in insertion order. The
  \<^verbatim>\<open>timestamp\<close> columns are never supplied by an INSERT, so they hold the default
  CURRENT_TIMESTAMP: the clock at the statement, here in seconds.
\<close>

record mood_row =
  mh_id :: nat
  mh_emotion :: string
  mh_confidence :: real
  mh_timestamp :: nat
  mh_session_id :: "string option"

record chat_row =
  ch_id :: nat
  ch_message :: string
  ch_sender :: string
  ch_mood :: "string option"
  ch_timestamp :: nat
  ch_session_id :: "string option"

record suggestion_row =
  sg_id :: nat
  sg_emotion :: string
  sg_message :: string
  sg_tip :: string
  sg_activity :: "string option"
  sg_sound :: "string option"
  sg_timestamp :: nat

record database =
  mood_history :: "mood_row list"
  chat_history :: "chat_row list"
  suggestions :: "suggestion_row list"

text \<open>
  \<^verbatim>\<open>INTEGER PRIMARY KEY AUTOINCREMENT\<close>: one more than the largest identifier of the
  table (no statement of the service deletes a row, so this is also the largest ever
  used).
\<close>

definition next_id :: "nat list \<Rightarrow> nat" where
  "next_id ids = Suc (fold max ids 0)"

text \<open>Decimal text of an integer, as SQLite renders it under TEXT affinity.\<close>

fun str_nat :: "nat \<Rightarrow> string" where
  "str_nat n =
     (if n < 10 then [char_of (48 + n)] else str_nat (n div 10) @ [char_of (48 + n mod 10)])"

definition str_int :: "int \<Rightarrow> string" where
  "str_int i = (if i < 0 then CHR ''-'' # str_nat (nat (- i)) else str_nat (nat i))"

text \<open>
  Binding a Python value to a parameter of a TEXT column: \<^verbatim>\<open>None\<close> is NULL, a string
  is itself, a bool or an int within 64 bits is stored as its decimal text, a larger int
  raises OverflowError, and a list or a dict cannot be bound.
\<close>

definition bind_text :: "jv \<Rightarrow> py_error + string option" where
  "bind_text v =
     (case v of
        JNull \<Rightarrow> Inr None
      | JBool b \<Rightarrow> Inr (Some (if b then ''1'' else ''0''))
      | JInt i \<Rightarrow>
          if - (2 ^ 63) \<le> i \<and> i < 2 ^ 63 then Inr (Some (str_int i)) else Inl OverflowError
      | JStr s \<Rightarrow> Inr (Some s)
      | _ \<Rightarrow> Inl InterfaceError)"

text \<open>\<^verbatim>\<open>LIMIT n\<close>: a negative \<open>n\<close> puts no bound on the number of rows.\<close>

definition sql_limit :: "int \<Rightarrow> 'a list \<Rightarrow> 'a list" where
  "sql_limit n rows = (if n < 0 then rows else take (nat n) rows)"

section \<open>The handlers\<close>

text \<open>
  The clock readings of one request: CURRENT_TIMESTAMP at its first and at its second
  INSERT, and \<^verbatim>\<open>datetime.now().isoformat()\<close> when the response is built.
\<close>

record times =
  first_insert :: nat
  second_insert :: nat
  isoformat_now :: string

text \<open>
  A response: \<^verbatim>\<open>jsonify({'error': msg}), status\<close>, or the JSON object of a successful
  call (status 200), by its fields.
\<close>

datatype response =
  ErrorResponse nat string
  | DetectResponse string real jv jv jv jv
  | ChatResponse string string
  | MoodHistoryResponse "(string \<times> real \<times> nat) list"
  | ChatHistoryResponse "(string \<times> string \<times> string option \<times> nat) list"
  | HealthResponse string string bool

definition internal_server_error :: response where
  "internal_server_error = ErrorResponse 500 ''Internal server error''"

text \<open>
  \<^verbatim>\<open>round(confidence, 2)\<close> on a double. Python takes the exact value of the double,
  rounds it to the nearest hundredth, a tie going to the even one, and returns the
  double nearest to that hundredth, a tie going to the even significand. The first step
  is \<open>round_half_even\<close> on a hundred times the value.
\<close>

definition round_half_even :: "real \<Rightarrow> int" where
  "round_half_even y =
     (let f = \<lfloor>y\<rfloor>; d = y - of_int f in
      if d < 1 / 2 then f else if 1 / 2 < d then f + 1 else if even f then f else f + 1)"

text \<open>
  The second step, for the fraction \<open>k / d\<close>. It is scaled by a power of two until its
  quotient lies between \<open>2 ^ 52\<close> and \<open>2 ^ 53\<close>, so that the integer nearest to the
  quotient is a significand of 53 bits; \<open>scale53 n d p\<close> returns a numerator, a
  denominator and an exponent with the same value \<open>n / d * 2 ^ p\<close>. A hundredth that
  is not zero is at least \<open>1 / 100\<close> in size, far from the subnormal numbers, and the
  hundredth of a double is far below the largest double unless it is that double itself.
\<close>

function scale53 :: "int \<Rightarrow> int \<Rightarrow> int \<Rightarrow> int \<times> int \<times> int" where
  "scale53 n d p =
     (if n \<le> 0 \<or> d \<le> 0 then (n, d, p)
      else if n < 2 ^ 52 * d then scale53 (2 * n) d (p - 1)
      else if 2 ^ 53 * d \<le> n then scale53 n (2 * d) (p + 1)
      else (n, d, p))"
  by pat_completeness auto
termination
  by (relation "measure (\<lambda>(n, d, p). nat (2 ^ 52 * d - n) + nat (n + 1 - 2 ^ 53 * d))") auto

definition nearest_double :: "int \<Rightarrow> int \<Rightarrow> real" where
  "nearest_double k d =
     (case scale53 \<bar>k\<bar> d 0 of
        (n, d', p) \<Rightarrow> of_int (sgn k * round_half_even (of_int n / of_int d')) * 2 powi p)"

definition py_round2 :: "real \<Rightarrow> real" where
  "py_round2 x = nearest_double (round_half_even (x * 100)) 100"

text \<open>
  The binary floating-point numbers of 53 significant bits, of which the doubles are
  those whose exponent is in range.
\<close>

definition float53 :: "real \<Rightarrow> bool" where
  "float53 x = (\<exists>m e :: int. \<bar>m\<bar> < 2 ^ 53 \<and> x = of_int m * 2 powi e)"

text \<open>
  The four values bound by the INSERT into \<^verbatim>\<open>suggestions\<close> and returned in the
  response: \<^verbatim>\<open>suggestion['message']\<close>, \<^verbatim>\<open>suggestion['tip']\<close>,
  \<^verbatim>\<open>suggestion.get('activity', '')\<close>, \<^verbatim>\<open>suggestion.get('sound', '')\<close>.
\<close>

definition suggestion_fields :: "jv \<Rightarrow> py_error + (jv \<times> jv \<times> jv \<times> jv)" where
  "suggestion_fields suggestion =
     and_then (py_getitem suggestion ''message'') (\<lambda>message.
     and_then (py_getitem suggestion ''tip'') (\<lambda>tip.
     and_then (py_get suggestion ''activity'' (JStr [])) (\<lambda>activity.
     and_then (py_get suggestion ''sound'' (JStr [])) (\<lambda>sound.
       Inr (message, tip, activity, sound)))))"

definition insert_suggestion ::
  "nat \<Rightarrow> string \<Rightarrow> jv \<times> jv \<times> jv \<times> jv \<Rightarrow> database \<Rightarrow> py_error + database" where
  "insert_suggestion now emotion vals db =
     (case vals of (message, tip, activity, sound) \<Rightarrow>
        and_then (bind_text message) (\<lambda>m.
        and_then (bind_text tip) (\<lambda>t.
        and_then (bind_text activity) (\<lambda>a.
        and_then (bind_text sound) (\<lambda>s.
          case (m, t) of
            (Some m', Some t') \<Rightarrow>
              Inr (db\<lparr>suggestions := suggestions db @
                    [\<lparr>sg_id = next_id (map sg_id (suggestions db)), sg_emotion = emotion,
                      sg_message = m', sg_tip = t', sg_activity = a, sg_sound = s,
                      sg_timestamp = now\<rparr>]\<rparr>)
          | _ \<Rightarrow> Inl IntegrityError)))))"

text \<open>
  The part of \<^verbatim>\<open>detect_mood\<close> after an emotion has been detected: the mood row is
  inserted and committed, the suggestion is fetched, its row is inserted and committed,
  and the response is built. An exception leaves what was committed before it.
\<close>

definition store_detection ::
  "'img services \<Rightarrow> times \<Rightarrow> jv \<Rightarrow> string \<Rightarrow> real \<Rightarrow> database \<Rightarrow> response \<times> database" where
  "store_detection sv tm data emotion confidence db =
     (case and_then (py_get data ''session_id'' (JStr ''default'')) bind_text of
        Inl e \<Rightarrow> (internal_server_error, db)
      | Inr session_id \<Rightarrow>
          (let db1 = db\<lparr>mood_history := mood_history db @
                       [\<lparr>mh_id = next_id (map mh_id (mood_history db)), mh_emotion = emotion,
                         mh_confidence = confidence, mh_timestamp = first_insert tm,
                         mh_session_id = session_id\<rparr>]\<rparr>;
               suggestion = get_therapeutic_suggestion sv emotion True
           in case suggestion_fields suggestion of
                Inl e \<Rightarrow> (internal_server_error, db1)
              | Inr (message, tip, activity, sound) \<Rightarrow>
                  (case insert_suggestion (second_insert tm) emotion
                          (message, tip, activity, sound) db1 of
                     Inl e \<Rightarrow> (internal_server_error, db1)
                   | Inr db2 \<Rightarrow>
                       (DetectResponse emotion (py_round2 confidence) message tip activity sound,
                        db2))))"

text \<open>
  \<^verbatim>\<open>detect_mood\<close>, the handler of POST /detect, on the outcome of
  \<^verbatim>\<open>request.get_json()\<close>. The whole body stands in a \<^verbatim>\<open>try\<close> whose handler answers
  500.
\<close>

definition detect_mood ::
  "'img services \<Rightarrow> times \<Rightarrow> py_error + jv \<Rightarrow> database \<Rightarrow> response \<times> database" where
  "detect_mood sv tm request_json db =
     (case request_json of
        Inl e \<Rightarrow> (internal_server_error, db)
      | Inr data \<Rightarrow>
          if \<not> truthy data then (ErrorResponse 400 ''No image provided'', db)
          else
            (case py_in ''image'' data of
               Inl e \<Rightarrow> (internal_server_error, db)
             | Inr False \<Rightarrow> (ErrorResponse 400 ''No image provided'', db)
             | Inr True \<Rightarrow>
                 (case py_getitem data ''image'' of
                    Inl e \<Rightarrow> (internal_server_error, db)
                  | Inr image_value \<Rightarrow>
                      (case decode_base64_image (decode_bytes sv) image_value of
                         None \<Rightarrow> (ErrorResponse 400 ''Invalid image format'', db)
                       | Some img \<Rightarrow>
                           (case detect_emotion (emotion_detector sv) img of
                              (None, confidence) \<Rightarrow> (ErrorResponse 400 ''No face detected'', db)
                            | (Some emotion, confidence) \<Rightarrow>
                                store_detection sv tm data emotion confidence db)))))"

text \<open>
  \<^verbatim>\<open>chat\<close>, the handler of POST /chat. Both INSERTs run on one connection and are
  committed together at the end; an exception before the commit stores nothing. The
  first INSERT binds its parameters and then checks that the message, whose column is
  NOT NULL, is not NULL; the second binds the reply, a string, and the same mood and
  session identifier.
\<close>

definition chat ::
  "'img services \<Rightarrow> times \<Rightarrow> py_error + jv \<Rightarrow> database \<Rightarrow> response \<times> database" where
  "chat sv tm request_json db =
     (case request_json of
        Inl e \<Rightarrow> (internal_server_error, db)
      | Inr data \<Rightarrow>
          if \<not> truthy data then (ErrorResponse 400 ''No message provided'', db)
          else
            (case py_in ''message'' data of
               Inl e \<Rightarrow> (internal_server_error, db)
             | Inr False \<Rightarrow> (ErrorResponse 400 ''No message provided'', db)
             | Inr True \<Rightarrow>
                 (case
                    and_then (py_getitem data ''message'') (\<lambda>user_message.
                    and_then (py_get data ''mood'' JNull) (\<lambda>mood.
                    and_then (py_get data ''chat_history'' (JList [])) (\<lambda>history.
                    and_then (py_get data ''session_id'' (JStr ''default'')) (\<lambda>session_id.
                    and_then (bind_text user_message) (\<lambda>m.
                    and_then (bind_text mood) (\<lambda>md.
                    and_then (bind_text session_id) (\<lambda>sid.
                      case m of
                        None \<Rightarrow> Inl IntegrityError
                      | Some m' \<Rightarrow>
                          Inr (m', md, sid,
                               get_chat_response sv user_message mood history))))))))
                  of
                    Inl e \<Rightarrow> (internal_server_error, db)
                  | Inr (m', md, sid, ai_response) \<Rightarrow>
                      (let n = next_id (map ch_id (chat_history db)) in
                       (ChatResponse ai_response (isoformat_now tm),
                        db\<lparr>chat_history := chat_history db @
                          [\<lparr>ch_id = n, ch_message = m', ch_sender = ''user'', ch_mood = md,
                            ch_timestamp = first_insert tm, ch_session_id = sid\<rparr>,
                           \<lparr>ch_id = Suc n, ch_message = ai_response, ch_sender = ''therapist'',
                            ch_mood = md, ch_timestamp = second_insert tm,
                            ch_session_id = sid\<rparr>]\<rparr>)))))"

text \<open>
  The query string of a history request: \<^verbatim>\<open>session_id\<close> and \<^verbatim>\<open>limit\<close>, each
  present or not.
\<close>

record query_args =
  session_arg :: "string option"
  limit_arg :: "string option"

text \<open>
  \<^verbatim>\<open>request.args.get(key, default, type=int)\<close>: the default when the key is missing
  and also when \<^verbatim>\<open>int\<close> raises ValueError on its value.
\<close>

definition args_get_int :: "(string \<Rightarrow> int option) \<Rightarrow> string option \<Rightarrow> int \<Rightarrow> int" where
  "args_get_int to_int arg dflt =
     (case arg of None \<Rightarrow> dflt | Some s \<Rightarrow> (case to_int s of None \<Rightarrow> dflt | Some n \<Rightarrow> n))"

definition args_get :: "string option \<Rightarrow> string \<Rightarrow> string" where
  "args_get arg dflt = (case arg of None \<Rightarrow> dflt | Some s \<Rightarrow> s)"

text \<open>
  \<^verbatim>\<open>get_mood_history\<close>, the handler of GET /mood-history:
  \<^verbatim>\<open>WHERE session_id = ? ORDER BY timestamp DESC LIMIT ?\<close>. A NULL session identifier
  equals nothing. Rows of equal timestamp are kept in insertion order (SQLite leaves
  their order open). A limit outside 64 bits cannot be bound.
\<close>

definition get_mood_history :: "'img services \<Rightarrow> query_args \<Rightarrow> database \<Rightarrow> response" where
  "get_mood_history sv args db =
     (let session_id = args_get (session_arg args) ''default'';
          limit = args_get_int (int_of_str sv) (limit_arg args) 50
      in if \<not> (- (2 ^ 63) \<le> limit \<and> limit < 2 ^ 63) then internal_server_error
         else MoodHistoryResponse
                (map (\<lambda>row. (mh_emotion row, mh_confidence row, mh_timestamp row))
                   (sql_limit limit
                      (sort_key (\<lambda>row. - int (mh_timestamp row))
                         (filter (\<lambda>row. mh_session_id row = Some session_id)
                            (mood_history db))))))"

text \<open>
  \<^verbatim>\<open>get_chat_history\<close>, the handler of GET /chat-history:
  \<^verbatim>\<open>WHERE session_id = ? ORDER BY timestamp ASC LIMIT ?\<close>.
\<close>

definition get_chat_history :: "'img services \<Rightarrow> query_args \<Rightarrow> database \<Rightarrow> response" where
  "get_chat_history sv args db =
     (let session_id = args_get (session_arg args) ''default'';
          limit = args_get_int (int_of_str sv) (limit_arg args) 100
      in if \<not> (- (2 ^ 63) \<le> limit \<and> limit < 2 ^ 63) then internal_server_error
         else ChatHistoryResponse
                (map (\<lambda>row. (ch_message row, ch_sender row, ch_mood row, ch_timestamp row))
                   (sql_limit limit
                      (sort_key ch_timestamp
                         (filter (\<lambda>row. ch_session_id row = Some session_id)
                            (chat_history db))))))"

text \<open>\<^verbatim>\<open>health_check\<close>, the handler of GET /health.\<close>

definition health_check :: "'img services \<Rightarrow> times \<Rightarrow> response" where
  "health_check sv tm = HealthResponse ''healthy'' (isoformat_now tm) (model_configured sv)"

text \<open>The five routes, and the service as a step from one store to the next.\<close>

datatype request =
  Detect "py_error + jv"
  | Chat "py_error + jv"
  | MoodHistory query_args
  | ChatHistory query_args
  | Health

fun handle :: "'img services \<Rightarrow> times \<Rightarrow> request \<Rightarrow> database \<Rightarrow> response \<times> database" where
  "handle sv tm (Detect body) db = detect_mood sv tm body db"
| "handle sv tm (Chat body) db = chat sv tm body db"
| "handle sv tm (MoodHistory args) db = (get_mood_history sv args db, db)"
| "handle sv tm (ChatHistory args) db = (get_chat_history sv args db, db)"
| "handle sv tm Health db = (health_check sv tm, db)"

text \<open>
  One store extends another when each table of the first is an initial segment of the
  same table of the second: every old row is still there, at its place and unchanged.
\<close>

definition extends :: "database \<Rightarrow> database \<Rightarrow> bool" where
  "extends db db' =
     (prefix (mood_history db) (mood_history db')
      \<and> prefix (chat_history db) (chat_history db')
      \<and> prefix (suggestions db) (suggestions db'))"

text \<open>
  The outcomes of the classifier on which \<open>detect_emotion\<close> returns no emotion: it
  raised, it listed no face, or the score mapping of the first face it listed is empty.
\<close>

definition no_emotion :: "py_error + face list \<Rightarrow> bool" where
  "no_emotion outcome =
     (case outcome of
        Inl e \<Rightarrow> True
      | Inr [] \<Rightarrow> True
      | Inr (first_face # others) \<Rightarrow> emotions first_face = [])"

section \<open>A concrete deployment\<close>

text \<open>
  Concrete collaborators, requests and stores, on which the theorems below are
  instantiated. Images are numbered; the image pipeline accepts one base64 text.
  The scores of the faces are doubles: fractions with a power of two below.
\<close>

definition demo_face :: face where
  "demo_face =
     \<lparr>box = [10, 20, 64, 64],
      emotions = [(''angry'', 0.03125), (''happy'', 0.875), (''sad'', 0.09375)]\<rparr>"

definition other_face :: face where
  "other_face = \<lparr>box = [90, 20, 64, 64], emotions = [(''angry'', 0.9), (''happy'', 0.1)]\<rparr>"

definition demo_services :: "nat services" where
  "demo_services =
     \<lparr>model_configured = False,
      decode_bytes = (\<lambda>s. if s = ''QUJD'' then Inr 1 else Inl ExternalError),
      emotion_detector = (\<lambda>i. Inr [demo_face]),
      generate_content = (\<lambda>p. GenerateFails),
      json_loads = (\<lambda>s. None),
      int_of_str = (\<lambda>s. if s = ''5'' then Some 5 else if s = ''-1'' then Some (- 1) else None)\<rparr>"

definition demo_times :: times where
  "demo_times =
     \<lparr>first_insert = 1700000000, second_insert = 1700000002,
      isoformat_now = ''2023-11-14T22:13:22.000417''\<rparr>"

definition empty_db :: database where
  "empty_db = \<lparr>mood_history = [], chat_history = [], suggestions = []\<rparr>"

definition demo_detect_body :: jv where
  "demo_detect_body =
     JDict [(''image'', JStr ''data:image/png;base64,QUJD''), (''session_id'', JStr ''s1'')]"

definition demo_chat_body :: jv where
  "demo_chat_body =
     JDict [(''message'', JStr ''hello''), (''mood'', JStr ''sad''), (''session_id'', JStr ''s1'')]"


section \<open>Evaluation on concrete requests\<close>

lemmas request_eval =
  detect_mood_def store_detection_def chat_def get_mood_history_def get_chat_history_def
  py_in_def py_getitem_def py_get_def dict_get_def and_then_def bind_text_def
  decode_base64_image_def split_comma_1_def detect_emotion_def py_max_def
  suggestion_fields_def insert_suggestion_def next_id_def sql_limit_def
  args_get_def args_get_int_def get_therapeutic_suggestion_def get_chat_response_def
  build_context_def suggestion_dict_def
  demo_services_def demo_times_def empty_db_def demo_detect_body_def demo_chat_body_def
  demo_face_def

section \<open>Properties of the detection operation\<close>

lemma max_loop_greatest:
  "key maxitem = Some m \<Longrightarrow> \<forall>x\<in>set xs. key x \<noteq> None \<Longrightarrow>
   \<exists>r c. max_loop key maxitem (Some m) xs = Inr r \<and> r \<in> set (maxitem # xs) \<and> key r = Some c
     \<and> m \<le> c \<and> (\<forall>x\<in>set xs. \<forall>v. key x = Some v \<longrightarrow> v \<le> c)"
proof (induction xs arbitrary: maxitem m)
  case Nil
  then show ?case by simp
next
  case (Cons item rest)
  from Cons.prems obtain v where v: "key item = Some v" by auto
  from Cons.prems have rest: "\<forall>x\<in>set rest. key x \<noteq> None" by simp
  show ?case
  proof (cases "m < v")
    case True
    from Cons.IH [OF v rest] obtain r c where
      "max_loop key item (Some v) rest = Inr r" "r \<in> set (item # rest)" "key r = Some c"
      "v \<le> c" "\<forall>x\<in>set rest. \<forall>w. key x = Some w \<longrightarrow> w \<le> c"
      by blast
    with True v show ?thesis by auto
  next
    case False
    from Cons.IH [OF Cons.prems(1) rest] obtain r c where
      "max_loop key maxitem (Some m) rest = Inr r" "r \<in> set (maxitem # rest)" "key r = Some c"
      "m \<le> c" "\<forall>x\<in>set rest. \<forall>w. key x = Some w \<longrightarrow> w \<le> c"
      by blast
    with False v show ?thesis by auto
  qed
qed

lemma py_max_dict_greatest:
  assumes "d \<noteq> []"
  shows "\<exists>l c. py_max (map_of d) (map fst d) = Inr l \<and> map_of d l = Some c
           \<and> (\<forall>l' c'. map_of d l' = Some c' \<longrightarrow> c' \<le> c)"
proof -
  from assms obtain kv rest where d: "d = kv # rest" by (cases d) auto
  have first: "map_of d (fst kv) = Some (snd kv)" by (simp add: d)
  have keys: "\<forall>x\<in>set (map fst rest). map_of d x \<noteq> None"
    unfolding map_of_eq_None_iff d by auto
  from max_loop_greatest [OF first keys] obtain r c where
    r: "max_loop (map_of d) (fst kv) (Some (snd kv)) (map fst rest) = Inr r"
    and c: "map_of d r = Some c" and ge: "snd kv \<le> c"
    and all: "\<forall>x\<in>set (map fst rest). \<forall>v. map_of d x = Some v \<longrightarrow> v \<le> c"
    by blast
  have "c' \<le> c" if "map_of d l' = Some c'" for l' c'
  proof (cases "l' = fst kv")
    case True
    with that first ge show ?thesis by simp
  next
    case False
    from that have "(l', c') \<in> set d" by (rule map_of_SomeD)
    then have "l' \<in> fst ` set d" by force
    with False have "l' \<in> set (map fst rest)" by (auto simp: d)
    with all that show ?thesis by blast
  qed
  with r c first show ?thesis by (auto simp: py_max_def d)
qed

text \<open>
  C1. When the classifier reports at least one face and the score mapping of the
  (first) detected face is not empty, \<open>detect_emotion\<close> returns a label of that mapping
  whose score is greatest in the mapping, together with that label's score.
\<close>

theorem detect_emotion_dominant:
  assumes "detector img = Inr (first_face # others)"
    and "emotions first_face \<noteq> []"
  shows "\<exists>l c. detect_emotion detector img = (Some l, c)
           \<and> map_of (emotions first_face) l = Some c
           \<and> (\<forall>l' c'. map_of (emotions first_face) l' = Some c' \<longrightarrow> c' \<le> c)"
proof -
  from py_max_dict_greatest [OF assms(2)] obtain l c where
    "py_max (map_of (emotions first_face)) (map fst (emotions first_face)) = Inr l"
    "map_of (emotions first_face) l = Some c"
    "\<forall>l' c'. map_of (emotions first_face) l' = Some c' \<longrightarrow> c' \<le> c"
    by blast
  with assms(1) show ?thesis by (auto simp: detect_emotion_def Let_def)
qed

theorem detect_emotion_dominant_witness:
  "(\<lambda>i::nat. Inr [demo_face, other_face] :: py_error + face list) 1 = Inr (demo_face # [other_face])
   \<and> emotions demo_face \<noteq> []
   \<and> (\<exists>l c. detect_emotion (\<lambda>i::nat. Inr [demo_face, other_face]) 1 = (Some l, c)
         \<and> map_of (emotions demo_face) l = Some c
         \<and> (\<forall>l' c'. map_of (emotions demo_face) l' = Some c' \<longrightarrow> c' \<le> c))"
  using detect_emotion_dominant [of "\<lambda>i::nat. Inr [demo_face, other_face]" 1 demo_face "[other_face]"]
  by (simp add: demo_face_def)



section \<open>Properties of the suggestions\<close>

lemma fallback_keys:
  "map fst fallback_suggestions =
     [''happy'', ''sad'', ''angry'', ''fear'', ''surprise'', ''disgust'', ''neutral'']"
  by (simp add: fallback_suggestions_def)

lemma fallback_unknown:
  "emotion \<notin> set (map fst fallback_suggestions) \<Longrightarrow>
   dict_get fallback_suggestions emotion neutral_suggestion = neutral_suggestion"
  by (simp add: dict_get_def map_of_eq_None_iff [THEN iffD2])

lemma fallback_known:
  "(k, entry) \<in> set fallback_suggestions \<Longrightarrow>
   dict_get fallback_suggestions k neutral_suggestion = entry"
proof -
  assume a: "(k, entry) \<in> set fallback_suggestions"
  have "distinct (map fst fallback_suggestions)" by (simp add: fallback_keys)
  from map_of_is_SomeI [OF this a] show ?thesis by (simp add: dict_get_def)
qed

text \<open>
  C4. When the generator is not used (\<^verbatim>\<open>use_gemini\<close> false, or \<^verbatim>\<open>model\<close> unset),
  \<open>get_therapeutic_suggestion\<close> is the fallback lookup: the keys of the table are the
  seven labels happy, sad, angry, fear, surprise, disgust, neutral; each of them gets its
  own entry, and every other label gets the entry of neutral.
\<close>

theorem fallback_lookup:
  assumes "\<not> (use_gemini \<and> model_configured sv)"
  shows "map fst fallback_suggestions =
           [''happy'', ''sad'', ''angry'', ''fear'', ''surprise'', ''disgust'', ''neutral'']
       \<and> (\<forall>(k, entry) \<in> set fallback_suggestions.
             get_therapeutic_suggestion sv k use_gemini = entry)
       \<and> (emotion \<notin> {''happy'', ''sad'', ''angry'', ''fear'', ''surprise'', ''disgust'', ''neutral''}
            \<longrightarrow> get_therapeutic_suggestion sv emotion use_gemini = neutral_suggestion
              \<and> (''neutral'', neutral_suggestion) \<in> set fallback_suggestions)"
proof -
  have lookup: "get_therapeutic_suggestion sv e use_gemini
                  = dict_get fallback_suggestions e neutral_suggestion" for e
    using assms by (auto simp: get_therapeutic_suggestion_def Let_def)
  have known: "\<forall>(k, entry) \<in> set fallback_suggestions.
                 get_therapeutic_suggestion sv k use_gemini = entry"
    using fallback_known by (auto simp: lookup)
  have unknown: "get_therapeutic_suggestion sv emotion use_gemini = neutral_suggestion"
    if "emotion \<notin> {''happy'', ''sad'', ''angry'', ''fear'', ''surprise'', ''disgust'', ''neutral''}"
  proof -
    from that have "emotion \<notin> set (map fst fallback_suggestions)"
      unfolding fallback_keys by simp
    then have "dict_get fallback_suggestions emotion neutral_suggestion = neutral_suggestion"
      by (rule fallback_unknown)
    then show ?thesis by (simp only: lookup)
  qed
  have neutral: "(''neutral'', neutral_suggestion) \<in> set fallback_suggestions"
    by (simp add: fallback_suggestions_def)
  show ?thesis
  proof (intro conjI impI)
    show "map fst fallback_suggestions =
            [''happy'', ''sad'', ''angry'', ''fear'', ''surprise'', ''disgust'', ''neutral'']"
      by (rule fallback_keys)
    show "\<forall>(k, entry) \<in> set fallback_suggestions.
            get_therapeutic_suggestion sv k use_gemini = entry"
      by (rule known)
    show "get_therapeutic_suggestion sv emotion use_gemini = neutral_suggestion"
      if "emotion \<notin> {''happy'', ''sad'', ''angry'', ''fear'', ''surprise'', ''disgust'', ''neutral''}"
      using that by (rule unknown)
    show "(''neutral'', neutral_suggestion) \<in> set fallback_suggestions"
      by (rule neutral)
  qed
qed

theorem fallback_lookup_witness:
  "\<not> (False \<and> model_configured demo_services)
   \<and> get_therapeutic_suggestion demo_services ''sad'' False
       = suggestion_dict
           ''It's completely okay to feel this way. Your emotions are valid, and you're not alone in this.''
           ''Allow yourself to feel without judgment. Sadness is a natural part of the human experience.''
           ''Try gentle stretching, journaling, or listening to comforting music.''
           ''gentle rain''
   \<and> ''contempt'' \<notin> {''happy'', ''sad'', ''angry'', ''fear'', ''surprise'', ''disgust'', ''neutral''}
   \<and> get_therapeutic_suggestion demo_services ''contempt'' False = neutral_suggestion"
  using fallback_lookup [of False demo_services "''contempt''"]
  by (simp add: fallback_suggestions_def)

section \<open>Properties of the store\<close>

lemma extends_refl: "extends db db"
  by (simp add: extends_def)

lemma extends_trans: "extends a b \<Longrightarrow> extends b c \<Longrightarrow> extends a c"
  by (auto simp: extends_def)

lemma insert_suggestion_extends:
  "insert_suggestion now emotion vals db = Inr db' \<Longrightarrow> extends db db'"
  by (auto simp: insert_suggestion_def and_then_def extends_def
           split: prod.splits sum.splits option.splits)

lemma store_detection_extends:
  "extends db (snd (store_detection sv tm data emotion confidence db))"
proof -
  let ?row = "\<lambda>sid. \<lparr>mh_id = next_id (map mh_id (mood_history db)), mh_emotion = emotion,
                         mh_confidence = confidence, mh_timestamp = first_insert tm,
                         mh_session_id = sid\<rparr>"
  have step: "extends db (db\<lparr>mood_history := mood_history db @ [?row sid]\<rparr>)" for sid
    by (simp add: extends_def)
  show ?thesis
    unfolding store_detection_def Let_def
    by (auto split: sum.splits prod.splits
             intro: extends_refl step extends_trans [OF step insert_suggestion_extends])
qed

lemma detect_mood_extends: "extends db (snd (detect_mood sv tm body db))"
  unfolding detect_mood_def
  by (auto split: sum.splits bool.splits option.splits prod.splits
           intro: extends_refl store_detection_extends)

lemma chat_extends: "extends db (snd (chat sv tm body db))"
  unfolding chat_def Let_def
  by (auto split: sum.splits bool.splits prod.splits simp: extends_def)

text \<open>
  C7. Whatever the request, the store after it extends the store before it: in each
  of the three tables the rows present before are still present, in place and
  unchanged, and a handler can only have added rows after them.
\<close>

theorem rows_only_appended: "extends db (snd (handle sv tm rq db))"
  by (cases rq) (simp_all add: detect_mood_extends chat_extends extends_refl)

theorem rows_only_appended_witness:
  "extends empty_db (snd (handle demo_services demo_times (Chat (Inr demo_chat_body)) empty_db))
   \<and> length (chat_history
         (snd (handle demo_services demo_times (Chat (Inr demo_chat_body)) empty_db))) = 2"
  using rows_only_appended [of empty_db demo_services demo_times "Chat (Inr demo_chat_body)"]
  by (simp add: request_eval)

section \<open>Properties of the chat handler\<close>

text \<open>
  C9. When \<open>chat\<close> answers with a reply, the store has gained exactly two chat rows,
  the user's and then the therapist's (the next identifier); the therapist row holds the
  reply that was returned; both rows hold the same session identifier and the same
  mood, namely those of the request as bound to the statement.
\<close>

theorem chat_rows:
  assumes "chat sv tm body db = (ChatResponse reply stamp, db')"
  shows "\<exists>data u t. body = Inr data
           \<and> chat_history db' = chat_history db @ [u, t]
           \<and> mood_history db' = mood_history db \<and> suggestions db' = suggestions db
           \<and> ch_sender u = ''user'' \<and> ch_sender t = ''therapist''
           \<and> ch_message t = reply \<and> ch_id t = Suc (ch_id u)
           \<and> ch_session_id t = ch_session_id u \<and> ch_mood t = ch_mood u
           \<and> and_then (py_getitem data ''message'') bind_text = Inr (Some (ch_message u))
           \<and> and_then (py_get data ''mood'' JNull) bind_text = Inr (ch_mood u)
           \<and> and_then (py_get data ''session_id'' (JStr ''default'')) bind_text
               = Inr (ch_session_id u)"
proof -
  from assms obtain data where body: "body = Inr data"
    by (cases body) (auto simp: chat_def internal_server_error_def)
  have "\<exists>u t. chat_history db' = chat_history db @ [u, t]
           \<and> mood_history db' = mood_history db \<and> suggestions db' = suggestions db
           \<and> ch_sender u = ''user'' \<and> ch_sender t = ''therapist''
           \<and> ch_message t = reply \<and> ch_id t = Suc (ch_id u)
           \<and> ch_session_id t = ch_session_id u \<and> ch_mood t = ch_mood u
           \<and> and_then (py_getitem data ''message'') bind_text = Inr (Some (ch_message u))
           \<and> and_then (py_get data ''mood'' JNull) bind_text = Inr (ch_mood u)
           \<and> and_then (py_get data ''session_id'' (JStr ''default'')) bind_text
               = Inr (ch_session_id u)"
    using assms unfolding body chat_def Let_def internal_server_error_def
    by (auto split: sum.splits bool.splits prod.splits option.splits if_splits
             simp: and_then_def)
  with body show ?thesis by blast
qed

theorem chat_rows_witness:
  "chat demo_services demo_times (Inr demo_chat_body) empty_db
     = (ChatResponse unconfigured_reply ''2023-11-14T22:13:22.000417'',
        snd (chat demo_services demo_times (Inr demo_chat_body) empty_db))
   \<and> chat_history (snd (chat demo_services demo_times (Inr demo_chat_body) empty_db))
       = [\<lparr>ch_id = 1, ch_message = ''hello'', ch_sender = ''user'', ch_mood = Some ''sad'',
            ch_timestamp = 1700000000, ch_session_id = Some ''s1''\<rparr>,
          \<lparr>ch_id = 2, ch_message = unconfigured_reply, ch_sender = ''therapist'',
            ch_mood = Some ''sad'', ch_timestamp = 1700000002, ch_session_id = Some ''s1''\<rparr>]"
  using chat_rows [of demo_services demo_times "Inr demo_chat_body" empty_db
      unconfigured_reply "''2023-11-14T22:13:22.000417''"
      "snd (chat demo_services demo_times (Inr demo_chat_body) empty_db)"]
  by (simp add: request_eval)

section \<open>Properties of the detection handler\<close>

lemma store_detection_success:
  assumes "store_detection sv tm data emotion confidence db
             = (DetectResponse e shown message tip activity sound, db')"
  shows "\<exists>row. mood_history db' = mood_history db @ [row]
           \<and> mh_emotion row = emotion \<and> mh_confidence row = confidence
           \<and> mh_timestamp row = first_insert tm
           \<and> and_then (py_get data ''session_id'' (JStr ''default'')) bind_text
               = Inr (mh_session_id row)
           \<and> e = emotion \<and> shown = py_round2 confidence"
  using assms unfolding store_detection_def Let_def internal_server_error_def
  by (auto split: sum.splits prod.splits
           simp: insert_suggestion_def and_then_def split: option.splits)

lemma detect_mood_success:
  assumes "detect_mood sv tm body db = (DetectResponse e shown message tip activity sound, db')"
  shows "\<exists>data v img confidence. body = Inr data \<and> py_getitem data ''image'' = Inr v
           \<and> decode_base64_image (decode_bytes sv) v = Some img
           \<and> detect_emotion (emotion_detector sv) img = (Some e, confidence)
           \<and> store_detection sv tm data e confidence db
               = (DetectResponse e shown message tip activity sound, db')"
proof -
  from assms obtain data where body: "body = Inr data"
    by (cases body) (auto simp: detect_mood_def internal_server_error_def)
  have "\<exists>v img confidence. py_getitem data ''image'' = Inr v
           \<and> decode_base64_image (decode_bytes sv) v = Some img
           \<and> detect_emotion (emotion_detector sv) img = (Some e, confidence)
           \<and> store_detection sv tm data e confidence db
               = (DetectResponse e shown message tip activity sound, db')"
    using assms store_detection_success
    unfolding body detect_mood_def internal_server_error_def
    by (fastforce split: sum.splits bool.splits option.splits prod.splits if_splits)
  with body show ?thesis by blast
qed

lemma mood_history_unbounded:
  assumes "row \<in> set (mood_history db)" and "mh_session_id row = Some sid"
    and "args_get (session_arg args) ''default'' = sid"
    and "args_get_int (int_of_str sv) (limit_arg args) 50 = n"
    and "- (2 ^ 63) \<le> n" "n < 2 ^ 63"
    and "n < 0 \<or> int (length (mood_history db)) \<le> n"
  shows "\<exists>es. get_mood_history sv args db = MoodHistoryResponse es
           \<and> (mh_emotion row, mh_confidence row, mh_timestamp row) \<in> set es"
proof -
  let ?sel = "sort_key (\<lambda>row. - int (mh_timestamp row))
                (filter (\<lambda>row. mh_session_id row = Some sid) (mood_history db))"
  have "length (filter (\<lambda>row. mh_session_id row = Some sid) (mood_history db))
          \<le> length (mood_history db)"
    (is "?k \<le> _") by (rule length_filter_le)
  have "sql_limit n ?sel = ?sel"
  proof (cases "n < 0")
    case True
    then show ?thesis by (simp add: sql_limit_def)
  next
    case False
    with assms(7) \<open>?k \<le> length (mood_history db)\<close> have "?k \<le> nat n" by linarith
    with False show ?thesis by (simp add: sql_limit_def)
  qed
  moreover from assms(1,2) have "row \<in> set ?sel" by simp
  ultimately show ?thesis
    using assms(3-6) by (force simp: get_mood_history_def Let_def)
qed

lemma round_half_even_cases:
  "round_half_even y = \<lfloor>y\<rfloor> \<or> round_half_even y = \<lfloor>y\<rfloor> + 1"
  by (simp add: round_half_even_def Let_def)

lemma round_half_even_near: "\<bar>y - of_int (round_half_even y)\<bar> \<le> 1 / 2"
proof -
  have "of_int \<lfloor>y\<rfloor> \<le> y" "y < of_int \<lfloor>y\<rfloor> + 1" by linarith+
  then show ?thesis by (auto simp: round_half_even_def Let_def)
qed

lemma round_half_even_tie:
  "\<bar>y - of_int (round_half_even y)\<bar> = 1 / 2 \<Longrightarrow> even (round_half_even y)"
proof -
  have "of_int \<lfloor>y\<rfloor> \<le> y" "y < of_int \<lfloor>y\<rfloor> + 1" by linarith+
  then show "\<bar>y - of_int (round_half_even y)\<bar> = 1 / 2 \<Longrightarrow> even (round_half_even y)"
    by (auto simp: round_half_even_def Let_def split: if_splits)
qed

lemma round_half_even_nearest:
  "\<bar>y - of_int (round_half_even y)\<bar> \<le> \<bar>y - of_int z\<bar>"
proof -
  have fl: "of_int \<lfloor>y\<rfloor> \<le> y" "y < of_int \<lfloor>y\<rfloor> + 1" by linarith+
  consider "z \<le> \<lfloor>y\<rfloor>" | "\<lfloor>y\<rfloor> + 1 \<le> z" by linarith
  then show ?thesis
  proof cases
    case 1
    then have "(of_int z :: real) \<le> of_int \<lfloor>y\<rfloor>" by simp
    with fl show ?thesis by (auto simp: round_half_even_def Let_def)
  next
    case 2
    then have "(of_int \<lfloor>y\<rfloor> :: real) + 1 \<le> of_int z"
      by (metis of_int_1 of_int_add of_int_le_iff)
    with fl show ?thesis by (auto simp: round_half_even_def Let_def)
  qed
qed

lemma scale53_normal:
  "0 < n \<Longrightarrow> 0 < d \<Longrightarrow> scale53 n d p = (n', d', p') \<Longrightarrow>
   0 < d' \<and> 2 ^ 52 * d' \<le> n' \<and> n' < 2 ^ 53 * d'
   \<and> (of_int n' / of_int d' :: real) * 2 powi p' = of_int n / of_int d * 2 powi p"
proof (induction n d p rule: scale53.induct)
  case (1 n d p)
  show ?case
  proof (cases "n < 2 ^ 52 * d")
    case True
    with "1.prems" have eq: "scale53 (2 * n) d (p - 1) = (n', d', p')" by simp
    from "1.prems" have pos: "0 < 2 * n" by simp
    have "\<not> (n \<le> 0 \<or> d \<le> 0)" using "1.prems" by simp
    from "1.IH"(1) [OF this True pos "1.prems"(2) eq]
    have ih: "0 < d' \<and> 2 ^ 52 * d' \<le> n' \<and> n' < 2 ^ 53 * d'
       \<and> (of_int n' / of_int d' :: real) * 2 powi p'
           = of_int (2 * n) / of_int d * 2 powi (p - 1)" .
    have "(of_int (2 * n) / of_int d :: real) * 2 powi (p - 1) = of_int n / of_int d * 2 powi p"
      by (simp add: power_int_diff)
    with ih show ?thesis by simp
  next
    case False
    show ?thesis
    proof (cases "2 ^ 53 * d \<le> n")
      case True
      with False "1.prems" have eq: "scale53 n (2 * d) (p + 1) = (n', d', p')" by simp
      from "1.prems" have pos: "0 < 2 * d" by simp
      have "\<not> (n \<le> 0 \<or> d \<le> 0)" using "1.prems" by simp
      from "1.IH"(2) [OF this False True "1.prems"(1) pos eq]
      have ih: "0 < d' \<and> 2 ^ 52 * d' \<le> n' \<and> n' < 2 ^ 53 * d'
         \<and> (of_int n' / of_int d' :: real) * 2 powi p'
             = of_int n / of_int (2 * d) * 2 powi (p + 1)" .
      have "(of_int n / of_int (2 * d) :: real) * 2 powi (p + 1) = of_int n / of_int d * 2 powi p"
        by (simp add: power_int_add)
      with ih show ?thesis by simp
    next
      case F2: False
      with False "1.prems" have "(n', d', p') = (n, d, p)" by simp
      with False F2 "1.prems" show ?thesis by simp
    qed
  qed
qed


lemma float53_zero: "float53 0"
  unfolding float53_def by (rule exI [of _ 0], rule exI [of _ 0]) simp

lemma nearest_double_zero: "nearest_double 0 d = 0"
  by (simp add: nearest_double_def round_half_even_def)

lemma nearest_double_nearest:
  assumes d: "0 < d" and k: "k \<noteq> 0"
  shows "float53 (nearest_double k d)
       \<and> (\<forall>x. float53 x \<longrightarrow>
             \<bar>nearest_double k d - of_int k / of_int d\<bar> \<le> \<bar>x - of_int k / of_int d\<bar>)"
proof -
  obtain n' d' p' where sc: "scale53 \<bar>k\<bar> d 0 = (n', d', p')"
    by (cases "scale53 \<bar>k\<bar> d 0") auto
  from k have "0 < \<bar>k\<bar>" by simp
  from scale53_normal [OF this d sc]
  have d': "0 < d'" and lo: "2 ^ 52 * d' \<le> n'" and hi: "n' < 2 ^ 53 * d'"
    and val: "(of_int n' / of_int d' :: real) * 2 powi p' = of_int \<bar>k\<bar> / of_int d"
    by simp_all
  define q :: real where "q = of_int n' / of_int d'"
  define P :: real where "P = 2 powi p'"
  define m where "m = round_half_even q"
  define s :: real where "s = of_int (sgn k)"
  have P: "0 < P" by (simp add: P_def)
  have s: "\<bar>s\<bar> = 1" "s * s = 1" using k by (auto simp: s_def sgn_if)
  have qlo: "2 ^ 52 \<le> q"
  proof -
    from lo have "(of_int (2 ^ 52 * d') :: real) \<le> of_int n'" by (simp only: of_int_le_iff)
    with d' show ?thesis by (simp add: q_def pos_le_divide_eq)
  qed
  have qhi: "q < 2 ^ 53"
  proof -
    from hi have "(of_int n' :: real) < of_int (2 ^ 53 * d')" by (simp only: of_int_less_iff)
    with d' show ?thesis by (simp add: q_def pos_divide_less_eq)
  qed
  have r: "nearest_double k d = s * of_int m * P"
    unfolding nearest_double_def sc s_def m_def q_def P_def by simp
  have y: "of_int k / of_int d = s * q * P"
  proof -
    have "(of_int k :: real) = s * of_int \<bar>k\<bar>" using k by (auto simp: s_def sgn_if)
    then have "(of_int k / of_int d :: real) = s * (of_int \<bar>k\<bar> / of_int d)" by simp
    also have "\<dots> = s * (q * P)" using val by (simp add: q_def P_def)
    finally show ?thesis by (simp add: mult.assoc)
  qed
  have dist: "\<bar>nearest_double k d - of_int k / of_int d\<bar> = \<bar>of_int m - q\<bar> * P"
  proof -
    have "nearest_double k d - of_int k / of_int d = s * ((of_int m - q) * P)"
      by (simp add: r y algebra_simps)
    then show ?thesis using s(1) P by (simp add: abs_mult)
  qed
  have mlo: "2 ^ 52 \<le> m"
  proof -
    from qlo have "(2 ^ 52 :: int) \<le> \<lfloor>q\<rfloor>" by (simp add: le_floor_iff)
    with round_half_even_cases [of q] show ?thesis by (auto simp: m_def)
  qed
  have mhi: "m \<le> 2 ^ 53"
  proof -
    from qhi have "\<lfloor>q\<rfloor> < (2 ^ 53 :: int)" by (simp add: floor_less_iff)
    with round_half_even_cases [of q] show ?thesis by (auto simp: m_def)
  qed
  have fl: "float53 (nearest_double k d)"
  proof (cases "m < 2 ^ 53")
    case True
    have "\<bar>sgn k * m\<bar> < 2 ^ 53" using True mlo k by (auto simp: sgn_if)
    moreover have "nearest_double k d = of_int (sgn k * m) * 2 powi p'"
      by (simp add: r s_def P_def)
    ultimately show ?thesis unfolding float53_def by blast
  next
    case False
    with mhi have m: "m = 2 ^ 53" by simp
    have "\<bar>sgn k * 2 ^ 52\<bar> < (2 ^ 53 :: int)" using k by (auto simp: sgn_if)
    moreover have "nearest_double k d = of_int (sgn k * 2 ^ 52) * 2 powi (p' + 1)"
      by (simp add: r s_def P_def m power_int_add)
    ultimately show ?thesis unfolding float53_def by blast
  qed
  have near: "\<bar>of_int m - q\<bar> * P \<le> \<bar>x - of_int k / of_int d\<bar>" if "float53 x" for x
  proof -
    from that obtain M E :: int where M: "\<bar>M\<bar> < 2 ^ 53" and x: "x = of_int M * 2 powi E"
      unfolding float53_def by blast
    define M' where "M' = sgn k * M"
    have M': "\<bar>M'\<bar> < 2 ^ 53" using M k by (auto simp: M'_def sgn_if)
    have sx: "s * x = of_int M' * 2 powi E" by (simp add: x M'_def s_def)
    have "\<bar>x - of_int k / of_int d\<bar> = \<bar>s\<bar> * \<bar>x - s * q * P\<bar>" by (simp add: y s(1))
    also have "\<dots> = \<bar>s * x - s * s * q * P\<bar>" by (simp add: abs_mult [symmetric] algebra_simps)
    also have "\<dots> = \<bar>of_int M' * 2 powi E - q * P\<bar>" by (simp add: s(2) sx)
    finally have dx: "\<bar>x - of_int k / of_int d\<bar> = \<bar>of_int M' * 2 powi E - q * P\<bar>" .
    show ?thesis
    proof (cases "p' \<le> E")
      case True
      define z where "z = M' * 2 ^ nat (E - p')"
      have "(2 :: real) powi E = 2 powi (E - p') * P"
        by (simp add: P_def power_int_add [symmetric])
      also have "(2 :: real) powi (E - p') = 2 ^ nat (E - p')"
        using True by (simp add: power_int_def)
      finally have "of_int M' * 2 powi E = of_int z * P" by (simp add: z_def)
      then have "of_int M' * 2 powi E - q * P = (of_int z - q) * P"
        by (simp add: algebra_simps)
      then have "\<bar>of_int M' * 2 powi E - q * P\<bar> = \<bar>of_int z - q\<bar> * P"
        using P by (simp add: abs_mult)
      moreover have "\<bar>of_int m - q\<bar> \<le> \<bar>of_int z - q\<bar>"
        using round_half_even_nearest [of q z] by (simp add: m_def abs_minus_commute)
      ultimately show ?thesis using P dx by (simp add: mult_right_mono)
    next
      case False
      then have "E \<le> p' - 1" by simp
      then have "(2 :: real) powi E \<le> 2 powi (p' - 1)"
        by (intro power_int_increasing) simp_all
      also have "\<dots> = P / 2" by (simp add: P_def power_int_diff)
      finally have pw: "(2 :: real) powi E \<le> P / 2" .
      have "of_int M' \<le> (2 ^ 53 :: real)"
      proof -
        from M' have "M' \<le> 2 ^ 53" by simp
        then have "(of_int M' :: real) \<le> of_int (2 ^ 53)" by (simp only: of_int_le_iff)
        then show ?thesis by simp
      qed
      moreover have "(0 :: real) \<le> 2 powi E" by simp
      ultimately have "of_int M' * 2 powi E \<le> (2 ^ 53 :: real) * 2 powi E"
        by (rule mult_right_mono)
      also have "\<dots> \<le> 2 ^ 53 * (P / 2)" using pw by simp
      also have "\<dots> = 2 ^ 52 * P" by simp
      finally have below: "of_int M' * 2 powi E \<le> 2 ^ 52 * P" .
      have "\<bar>of_int m - q\<bar> \<le> \<bar>of_int (2 ^ 52) - q\<bar>"
        using round_half_even_nearest [of q "2 ^ 52"] by (simp add: m_def abs_minus_commute)
      also have "\<dots> = q - 2 ^ 52" using qlo by simp
      finally have "\<bar>of_int m - q\<bar> * P \<le> (q - 2 ^ 52) * P"
        using P by (simp add: mult_right_mono)
      also have "\<dots> \<le> q * P - of_int M' * 2 powi E" using below by (simp add: algebra_simps)
      also have "\<dots> \<le> \<bar>of_int M' * 2 powi E - q * P\<bar>" by simp
      finally show ?thesis by (simp add: dx)
    qed
  qed
  from fl near dist show ?thesis by simp
qed

lemma py_round2_nearest:
  "float53 (py_round2 c)
   \<and> (\<forall>x. float53 x \<longrightarrow>
         \<bar>py_round2 c - of_int (round_half_even (c * 100)) / 100\<bar>
           \<le> \<bar>x - of_int (round_half_even (c * 100)) / 100\<bar>)"
proof (cases "round_half_even (c * 100) = 0")
  case True
  then show ?thesis by (simp add: py_round2_def nearest_double_zero float53_zero)
next
  case False
  from nearest_double_nearest [of 100, OF _ False] show ?thesis
    by (simp add: py_round2_def)
qed

text \<open>
  C8. When \<open>detect_mood\<close> answers with a detection, the mood row it appended holds
  the classifier's confidence itself, while the confidence in the response is that
  confidence rounded to two decimals: there is a whole number of hundredths \<open>k\<close>
  nearest to the confidence (the even one at a tie), and the response holds a
  floating-point number of 53 bits that is nearest to \<open>k / 100\<close> among all such
  numbers. So where rounding changes the value the two differ, and a later
  \<open>get_mood_history\<close> for the row's session (with no bound, or a bound not below the
  number of rows) returns the unrounded one.
\<close>

theorem detect_confidence_rounded:
  assumes "detect_mood sv tm body db = (DetectResponse e shown message tip activity sound, db')"
  shows "\<exists>row data v img k.
           body = Inr data \<and> py_getitem data ''image'' = Inr v
           \<and> decode_base64_image (decode_bytes sv) v = Some img
           \<and> detect_emotion (emotion_detector sv) img = (Some e, mh_confidence row)
           \<and> mood_history db' = mood_history db @ [row]
           \<and> mh_emotion row = e
           \<and> shown = py_round2 (mh_confidence row)
           \<and> \<bar>mh_confidence row * 100 - of_int k\<bar> \<le> 1 / 2
           \<and> (\<bar>mh_confidence row * 100 - of_int k\<bar> = 1 / 2 \<longrightarrow> even k)
           \<and> float53 shown
           \<and> (\<forall>x. float53 x \<longrightarrow> \<bar>shown - of_int k / 100\<bar> \<le> \<bar>x - of_int k / 100\<bar>)
           \<and> (py_round2 (mh_confidence row) \<noteq> mh_confidence row
                \<longrightarrow> shown \<noteq> mh_confidence row)
           \<and> (\<forall>args sid n.
                 mh_session_id row = Some sid
                 \<and> args_get (session_arg args) ''default'' = sid
                 \<and> args_get_int (int_of_str sv) (limit_arg args) 50 = n
                 \<and> - (2 ^ 63) \<le> n \<and> n < 2 ^ 63
                 \<and> (n < 0 \<or> int (length (mood_history db')) \<le> n)
                 \<longrightarrow> (\<exists>es. get_mood_history sv args db' = MoodHistoryResponse es
                        \<and> (e, mh_confidence row, mh_timestamp row) \<in> set es))"
proof -
  from detect_mood_success [OF assms] obtain data v img confidence where
    body: "body = Inr data" "py_getitem data ''image'' = Inr v"
      "decode_base64_image (decode_bytes sv) v = Some img"
    and det: "detect_emotion (emotion_detector sv) img = (Some e, confidence)"
    and st: "store_detection sv tm data e confidence db
               = (DetectResponse e shown message tip activity sound, db')"
    by blast
  from store_detection_success [OF st] obtain row where
    row: "mood_history db' = mood_history db @ [row]" "mh_emotion row = e"
      "mh_confidence row = confidence" "shown = py_round2 confidence"
    by blast
  from row(1) have mem: "row \<in> set (mood_history db')" by simp
  have later: "\<exists>es. get_mood_history sv args db' = MoodHistoryResponse es
                 \<and> (e, mh_confidence row, mh_timestamp row) \<in> set es"
    if "mh_session_id row = Some sid" "args_get (session_arg args) ''default'' = sid"
      "args_get_int (int_of_str sv) (limit_arg args) 50 = n"
      "- (2 ^ 63) \<le> n" "n < 2 ^ 63" "n < 0 \<or> int (length (mood_history db')) \<le> n"
    for args sid n
    using mood_history_unbounded [OF mem that] row(2) by simp
  define k where "k = round_half_even (confidence * 100)"
  have k1: "\<bar>confidence * 100 - of_int k\<bar> \<le> 1 / 2"
    unfolding k_def by (rule round_half_even_near)
  have k2: "\<bar>confidence * 100 - of_int k\<bar> = 1 / 2 \<longrightarrow> even k"
    unfolding k_def using round_half_even_tie [of "confidence * 100"] by blast
  from py_round2_nearest [of confidence]
  have k3: "float53 shown"
    and k4: "\<forall>x. float53 x \<longrightarrow> \<bar>shown - of_int k / 100\<bar> \<le> \<bar>x - of_int k / 100\<bar>"
    by (simp_all add: row(4) k_def)
  from body det row later k1 k2 k3 k4 show ?thesis by blast
qed

theorem detect_confidence_rounded_witness:
  "detect_mood demo_services demo_times (Inr demo_detect_body) empty_db
     = (DetectResponse ''happy'' (7926335344172073 / 9007199254740992)
          (JStr ''Your positive energy is wonderful! Embrace this joyful moment and let it fill you with warmth.'')
          (JStr ''Share your happiness with others - positive emotions are contagious in the best way.'')
          (JStr ''Try dancing to your favorite song or call someone you care about.'')
          (JStr ''uplifting nature sounds''),
        snd (detect_mood demo_services demo_times (Inr demo_detect_body) empty_db))
   \<and> map mh_confidence
        (mood_history (snd (detect_mood demo_services demo_times (Inr demo_detect_body) empty_db)))
       = [7 / 8]
   \<and> get_mood_history demo_services \<lparr>session_arg = Some ''s1'', limit_arg = Some ''-1''\<rparr>
        (snd (detect_mood demo_services demo_times (Inr demo_detect_body) empty_db))
       = MoodHistoryResponse [(''happy'', 7 / 8, 1700000000)]
   \<and> py_round2 (6034823500676465 / 9007199254740992) = 6034823500676465 / 9007199254740992"
  using detect_confidence_rounded [of demo_services demo_times "Inr demo_detect_body" empty_db
      "''happy''" "7926335344172073 / 9007199254740992"
      "JStr ''Your positive energy is wonderful! Embrace this joyful moment and let it fill you with warmth.''"
      "JStr ''Share your happiness with others - positive emotions are contagious in the best way.''"
      "JStr ''Try dancing to your favorite song or call someone you care about.''"
      "JStr ''uplifting nature sounds''"
      "snd (detect_mood demo_services demo_times (Inr demo_detect_body) empty_db)"]
  by (simp add: request_eval fallback_suggestions_def py_round2_def nearest_double_def
        round_half_even_def Let_def)

lemma detect_emotion_none:
  "fst (detect_emotion detector img) = None \<longleftrightarrow> no_emotion (detector img)"
proof (cases "detector img")
  case (Inl e)
  then show ?thesis by (simp add: detect_emotion_def no_emotion_def)
next
  case (Inr faces)
  show ?thesis
  proof (cases faces)
    case Nil
    with Inr show ?thesis by (simp add: detect_emotion_def no_emotion_def)
  next
    case (Cons first_face others)
    show ?thesis
    proof (cases "emotions first_face = []")
      case True
      with Inr Cons show ?thesis
        by (simp add: detect_emotion_def no_emotion_def py_max_def)
    next
      case False
      from py_max_dict_greatest [OF False] obtain l c where
        "py_max (map_of (emotions first_face)) (map fst (emotions first_face)) = Inr l"
        "map_of (emotions first_face) l = Some c"
        by blast
      with Inr Cons have "detect_emotion detector img = (Some l, c)"
        by (simp add: detect_emotion_def)
      with Inr Cons False show ?thesis by (simp add: no_emotion_def)
    qed
  qed
qed

lemma store_detection_not_400:
  "fst (store_detection sv tm data emotion confidence db) \<noteq> ErrorResponse 400 msg"
  unfolding store_detection_def Let_def internal_server_error_def
  by (auto split: sum.splits prod.splits)

text \<open>
  C2, as the code has it. For a request whose JSON parses to \<open>data\<close>, \<open>detect_mood\<close>
  answers 400 exactly when \<open>data\<close> is falsy (absent, null, empty), or is an object,
  list or string without \<^verbatim>\<open>'image'\<close>, or the image value does not decode, or
  \<open>detect_emotion\<close> yields no emotion, which is the case when the classifier lists no
  face and also when it raises or the first face's score mapping is empty. A 400 leaves
  the store as it was. When \<^verbatim>\<open>get_json\<close> itself raises the answer is 500.
\<close>

theorem detect_mood_client_error:
  "((\<exists>msg. fst (detect_mood sv tm (Inr data) db) = ErrorResponse 400 msg) \<longleftrightarrow>
      (\<not> truthy data \<or> py_in ''image'' data = Inr False
       \<or> (\<exists>v. py_in ''image'' data = Inr True \<and> py_getitem data ''image'' = Inr v
             \<and> (case decode_base64_image (decode_bytes sv) v of
                   None \<Rightarrow> True
                 | Some img \<Rightarrow> no_emotion (emotion_detector sv img)))))
   \<and> ((\<exists>msg. fst (detect_mood sv tm (Inr data) db) = ErrorResponse 400 msg)
        \<longrightarrow> snd (detect_mood sv tm (Inr data) db) = db)
   \<and> fst (detect_mood sv tm (Inl err) db) = ErrorResponse 500 ''Internal server error''"
proof -
  have yes: "detect_emotion (emotion_detector sv) img = (None, c) \<Longrightarrow>
             no_emotion (emotion_detector sv img)" for img c
    using detect_emotion_none [of "emotion_detector sv" img] by simp
  have no: "detect_emotion (emotion_detector sv) img = (Some e, c) \<Longrightarrow>
             \<not> no_emotion (emotion_detector sv img)" for img e c
    using detect_emotion_none [of "emotion_detector sv" img] by simp
  show ?thesis
  proof (intro conjI)
    show "(\<exists>msg. fst (detect_mood sv tm (Inr data) db) = ErrorResponse 400 msg) \<longleftrightarrow>
      (\<not> truthy data \<or> py_in ''image'' data = Inr False
       \<or> (\<exists>v. py_in ''image'' data = Inr True \<and> py_getitem data ''image'' = Inr v
             \<and> (case decode_base64_image (decode_bytes sv) v of
                   None \<Rightarrow> True
                 | Some img \<Rightarrow> no_emotion (emotion_detector sv img))))"
      unfolding detect_mood_def internal_server_error_def
      using store_detection_not_400 [of sv tm data _ _ db]
      by (auto split: sum.splits bool.splits option.splits prod.splits dest: yes no)
    show "(\<exists>msg. fst (detect_mood sv tm (Inr data) db) = ErrorResponse 400 msg)
        \<longrightarrow> snd (detect_mood sv tm (Inr data) db) = db"
      unfolding detect_mood_def internal_server_error_def
      using store_detection_not_400 [of sv tm data _ _ db]
      by (auto split: sum.splits bool.splits option.splits prod.splits)
    show "fst (detect_mood sv tm (Inl err) db) = ErrorResponse 500 ''Internal server error''"
      by (simp add: detect_mood_def internal_server_error_def)
  qed
qed

theorem detect_mood_client_error_witness:
  "(\<exists>msg. fst (detect_mood (demo_services\<lparr>emotion_detector := \<lambda>i. Inr []\<rparr>) demo_times
                   (Inr demo_detect_body) empty_db) = ErrorResponse 400 msg)
   \<and> truthy demo_detect_body
   \<and> py_getitem demo_detect_body ''image'' = Inr (JStr ''data:image/png;base64,QUJD'')
   \<and> decode_base64_image (decode_bytes demo_services) (JStr ''data:image/png;base64,QUJD'')
       = Some 1
   \<and> no_emotion (Inr [])
   \<and> snd (detect_mood (demo_services\<lparr>emotion_detector := \<lambda>i. Inr []\<rparr>) demo_times
            (Inr demo_detect_body) empty_db) = empty_db"
  using detect_mood_client_error
    [of "demo_services\<lparr>emotion_detector := \<lambda>i. Inr []\<rparr>" demo_times demo_detect_body empty_db]
  by (simp add: request_eval no_emotion_def)

text \<open>
  C2 as written does not hold. With a body that has an image which decodes, and a
  classifier that raises (rather than finding no face), the answer is still the 400
  ``No face detected''; and the body \<^verbatim>\<open>5\<close>, which has no \<^verbatim>\<open>'image'\<close> key, is
  answered with 500, the membership test having raised.
\<close>

theorem detect_mood_client_error_counterexample:
  "fst (detect_mood (demo_services\<lparr>emotion_detector := \<lambda>i. Inl ExternalError\<rparr>) demo_times
          (Inr demo_detect_body) empty_db) = ErrorResponse 400 ''No face detected''
   \<and> truthy demo_detect_body
   \<and> py_in ''image'' demo_detect_body = Inr True
   \<and> decode_base64_image (decode_bytes demo_services) (JStr ''data:image/png;base64,QUJD'')
       = Some 1
   \<and> emotion_detector (demo_services\<lparr>emotion_detector := \<lambda>i. Inl ExternalError\<rparr>) 1
       = Inl ExternalError
   \<and> fst (detect_mood demo_services demo_times (Inr (JInt 5)) empty_db)
       = ErrorResponse 500 ''Internal server error''
   \<and> py_getitem (JInt 5) ''image'' = Inl TypeError"
  by (simp add: request_eval internal_server_error_def)

section \<open>Properties of the history handlers\<close>










section \<open>Properties of the suggestion in a detection call\<close>

lemma fallback_entries_are_dicts:
  "(k, entry) \<in> set fallback_suggestions \<Longrightarrow> \<exists>m t a s. entry = suggestion_dict m t a s"
  unfolding fallback_suggestions_def neutral_suggestion_def by auto

lemma fallback_is_dict:
  "\<exists>m t a s. dict_get fallback_suggestions emotion neutral_suggestion = suggestion_dict m t a s"
proof (cases "map_of fallback_suggestions emotion")
  case None
  then show ?thesis by (auto simp: dict_get_def neutral_suggestion_def)
next
  case (Some entry)
  then have "(emotion, entry) \<in> set fallback_suggestions" by (rule map_of_SomeD)
  from fallback_entries_are_dicts [OF this] Some show ?thesis by (simp add: dict_get_def)
qed

lemma getitem_image:
  assumes "py_getitem data ''image'' = Inr v"
  shows "truthy data \<and> py_in ''image'' data = Inr True"
proof -
  from assms obtain d where d: "data = JDict d" "map_of d ''image'' = Some v"
    by (cases data) (auto simp: py_getitem_def split: option.splits)
  from d(2) have "(''image'', v) \<in> set d" by (rule map_of_SomeD)
  then have "''image'' \<in> fst ` set d" by force
  moreover from d(2) have "d \<noteq> []" by auto
  ultimately show ?thesis by (simp add: d(1) py_in_def)
qed

lemma store_detection_dict:
  assumes "get_therapeutic_suggestion sv emotion True = suggestion_dict m t a s"
    and "and_then (py_get data ''session_id'' (JStr ''default'')) bind_text = Inr sid"
  shows "fst (store_detection sv tm data emotion confidence db)
           = DetectResponse emotion (py_round2 confidence) (JStr m) (JStr t) (JStr a) (JStr s)
       \<and> suggestions (snd (store_detection sv tm data emotion confidence db))
           = suggestions db @
               [\<lparr>sg_id = next_id (map sg_id (suggestions db)), sg_emotion = emotion,
                 sg_message = m, sg_tip = t, sg_activity = Some a, sg_sound = Some s,
                 sg_timestamp = second_insert tm\<rparr>]"
  using assms
  by (simp add: store_detection_def Let_def suggestion_fields_def suggestion_dict_def
        py_getitem_def py_get_def dict_get_def and_then_def insert_suggestion_def bind_text_def)

lemma detect_mood_reaches_store:
  assumes "py_getitem data ''image'' = Inr v"
    and "decode_base64_image (decode_bytes sv) v = Some img"
    and "detect_emotion (emotion_detector sv) img = (Some emotion, confidence)"
  shows "detect_mood sv tm (Inr data) db = store_detection sv tm data emotion confidence db"
  using assms getitem_image [OF assms(1)] by (simp add: detect_mood_def)

text \<open>
  C5, as the code has it. Take a detection call that gets as far as an emotion and whose
  session identifier can be stored. When the generator is unconfigured, or its call
  raises, or reading its text raises, the suggestion returned and stored is the entry of
  the fallback table for the detected emotion (the neutral entry for a label outside
  the table). When the generator answers with text that is not JSON, the suggestion
  returned and stored is the fixed general-purpose one, the same for every emotion.
\<close>

theorem suggestion_when_generator_unusable:
  assumes "py_getitem data ''image'' = Inr v"
    and "decode_base64_image (decode_bytes sv) v = Some img"
    and "detect_emotion (emotion_detector sv) img = (Some emotion, confidence)"
    and "and_then (py_get data ''session_id'' (JStr ''default'')) bind_text = Inr sid"
  shows "\<exists>m t a s.
           (if model_configured sv
               \<and> (\<exists>txt. generate_content sv (SuggestionPrompt emotion) = Text txt
                          \<and> json_loads sv txt = None)
            then generic_suggestion
            else dict_get fallback_suggestions emotion neutral_suggestion)
             = suggestion_dict m t a s
           \<and> ((\<not> model_configured sv
                 \<or> generate_content sv (SuggestionPrompt emotion) = GenerateFails
                 \<or> generate_content sv (SuggestionPrompt emotion) = TextFails
                 \<or> (\<exists>txt. generate_content sv (SuggestionPrompt emotion) = Text txt
                          \<and> json_loads sv txt = None))
                \<longrightarrow> fst (detect_mood sv tm (Inr data) db)
                      = DetectResponse emotion (py_round2 confidence)
                          (JStr m) (JStr t) (JStr a) (JStr s)
                    \<and> suggestions (snd (detect_mood sv tm (Inr data) db))
                      = suggestions db @
                          [\<lparr>sg_id = next_id (map sg_id (suggestions db)), sg_emotion = emotion,
                            sg_message = m, sg_tip = t, sg_activity = Some a,
                            sg_sound = Some s, sg_timestamp = second_insert tm\<rparr>])"
proof -
  let ?unparsable = "model_configured sv
      \<and> (\<exists>txt. generate_content sv (SuggestionPrompt emotion) = Text txt
                 \<and> json_loads sv txt = None)"
  let ?unusable = "\<not> model_configured sv
      \<or> generate_content sv (SuggestionPrompt emotion) = GenerateFails
      \<or> generate_content sv (SuggestionPrompt emotion) = TextFails
      \<or> (\<exists>txt. generate_content sv (SuggestionPrompt emotion) = Text txt
                 \<and> json_loads sv txt = None)"
  let ?chosen = "if ?unparsable then generic_suggestion
                 else dict_get fallback_suggestions emotion neutral_suggestion"
  have "\<exists>m t a s. ?chosen = suggestion_dict m t a s"
    using fallback_is_dict [of emotion] by (auto simp: generic_suggestion_def)
  then obtain m t a s where chosen: "?chosen = suggestion_dict m t a s" by blast
  have got: "get_therapeutic_suggestion sv emotion True = ?chosen" if ?unusable
    using that by (auto simp: get_therapeutic_suggestion_def Let_def)
  have "fst (detect_mood sv tm (Inr data) db)
          = DetectResponse emotion (py_round2 confidence) (JStr m) (JStr t) (JStr a) (JStr s)
        \<and> suggestions (snd (detect_mood sv tm (Inr data) db))
          = suggestions db @
              [\<lparr>sg_id = next_id (map sg_id (suggestions db)), sg_emotion = emotion,
                sg_message = m, sg_tip = t, sg_activity = Some a,
                sg_sound = Some s, sg_timestamp = second_insert tm\<rparr>]"
    if ?unusable
  proof -
    from got [OF that] chosen
    have "get_therapeutic_suggestion sv emotion True = suggestion_dict m t a s" by simp
    from store_detection_dict [OF this assms(4)] show ?thesis
      by (simp only: detect_mood_reaches_store [OF assms(1-3)])
  qed
  with chosen show ?thesis by blast
qed

theorem suggestion_when_generator_unusable_witness:
  "py_getitem demo_detect_body ''image'' = Inr (JStr ''data:image/png;base64,QUJD'')
   \<and> decode_base64_image (decode_bytes demo_services) (JStr ''data:image/png;base64,QUJD'')
       = Some 1
   \<and> detect_emotion (emotion_detector demo_services) 1 = (Some ''happy'', 7 / 8)
   \<and> and_then (py_get demo_detect_body ''session_id'' (JStr ''default'')) bind_text
       = Inr (Some ''s1'')
   \<and> \<not> model_configured demo_services
   \<and> fst (detect_mood demo_services demo_times (Inr demo_detect_body) empty_db)
       = DetectResponse ''happy'' (7926335344172073 / 9007199254740992)
          (JStr ''Your positive energy is wonderful! Embrace this joyful moment and let it fill you with warmth.'')
          (JStr ''Share your happiness with others - positive emotions are contagious in the best way.'')
          (JStr ''Try dancing to your favorite song or call someone you care about.'')
          (JStr ''uplifting nature sounds'')
   \<and> map sg_message
        (suggestions (snd (detect_mood demo_services demo_times (Inr demo_detect_body) empty_db)))
       = [''Your positive energy is wonderful! Embrace this joyful moment and let it fill you with warmth.'']"
  using suggestion_when_generator_unusable
    [of demo_detect_body "JStr ''data:image/png;base64,QUJD''" demo_services 1 "''happy''"
        "7 / 8" "Some ''s1''" demo_times empty_db]
  by (simp add: request_eval fallback_suggestions_def py_round2_def nearest_double_def
        round_half_even_def Let_def)

text \<open>
  C5 as written does not hold for unparseable output: the generator answers ``Stay
  positive.'', which is not JSON, the detected emotion is happy, and the suggestion
  returned is the general-purpose one, not the happy entry of the fallback table.
\<close>

theorem suggestion_unparsable_counterexample:
  "generate_content
      (demo_services\<lparr>model_configured := True, generate_content := \<lambda>p. Text ''Stay positive.''\<rparr>)
      (SuggestionPrompt ''happy'') = Text ''Stay positive.''
   \<and> json_loads
      (demo_services\<lparr>model_configured := True, generate_content := \<lambda>p. Text ''Stay positive.''\<rparr>)
      ''Stay positive.'' = None
   \<and> fst (detect_mood
        (demo_services\<lparr>model_configured := True, generate_content := \<lambda>p. Text ''Stay positive.''\<rparr>)
        demo_times (Inr demo_detect_body) empty_db)
       = DetectResponse ''happy'' (7926335344172073 / 9007199254740992)
          (JStr ''You're doing great by acknowledging your feelings. Every emotion is valid and temporary.'')
          (JStr ''Take slow, deep breaths and remind yourself that this feeling will pass.'')
          (JStr ''Try a short mindfulness exercise or gentle movement.'')
          (JStr ''calming nature sounds'')
   \<and> dict_get fallback_suggestions ''happy'' neutral_suggestion
       = suggestion_dict
          ''Your positive energy is wonderful! Embrace this joyful moment and let it fill you with warmth.''
          ''Share your happiness with others - positive emotions are contagious in the best way.''
          ''Try dancing to your favorite song or call someone you care about.''
          ''uplifting nature sounds''"
  by (simp add: request_eval fallback_suggestions_def py_round2_def nearest_double_def
        round_half_even_def Let_def generic_suggestion_def)

section \<open>Properties of the chat reply\<close>







end
